theory Spec2Isabelle
  imports Main "HOL-Library.Sublist"
begin

section \<open>Values, staged operations and errors\<close>

text \<open>
  The module \<^verbatim>\<open>tensorflow/python/autograph/operators/py_builtins.py\<close> overloads the
  Python builtins abs, float, int, len, print, range and enumerate. Each overload
  inspects its arguments: on tensors it builds a staged operation of the graph, on
  anything else it calls the builtin itself.

  Python values are the datatype \<open>pyval\<close>. \<open>UNSPECIFIED\<close> is the module's sentinel
  object (\<^verbatim>\<open>UNSPECIFIED = object()\<close>), compared by identity in the source and by
  equality of constructors here. A tensor carries what the module reads from it, its
  \<^verbatim>\<open>dtype\<close> and its static \<^verbatim>\<open>shape\<close>, and the staged operation that produces it.
  A static shape is \<open>None\<close> when the rank is unknown, and otherwise the list of its
  dimensions, each \<open>None\<close> when unknown. Floating point numbers are outside the
  model; a \<open>PObject\<close> is a host object of a kind that is not listed, which is no
  number. Calls pass their arguments by position.
\<close>

datatype dtype = DT_string | DT_int32 | DT_float32 | DT_bool | DT_variant | DT_other nat

type_synonym tensor_shape = "nat option list option"

datatype pyval =
    PNone
  | PBool bool
  | PInt int
  | PStr string
  | PBytes string
  | PList "pyval list"
  | PTuple "pyval list"
  | PDict "(pyval \<times> pyval) list"
  | PRange int int int
  | PObject nat
  | UNSPECIFIED
  | PTensor dtype tensor_shape staged_op
  | PTensorArray nat
  | PDataset nat
  | PEnumeratedDataset pyval pyval
and staged_op =
    Placeholder nat
  | Constant pyval dtype
  | Abs pyval
  | Cast pyval dtype
  | StringToNumber pyval dtype
  | Shape pyval
  | Rank pyval
  | GetItem pyval nat
  | Greater pyval pyval
  | StringJoin "pyval list"
  | AsString pyval
  | Assert pyval "pyval list"
  | ControlDependencies "staged_op list" staged_op
  | Cond pyval pyval pyval
  | Maximum pyval pyval
  | Range "pyval list"
  | TensorArraySize pyval
  | TensorListLength pyval
  | WrapPyFunc closure pyval "pyval list" bool
and closure =
    PrintWrapper "(string \<times> pyval) list"

datatype exn =
    ValueError string
  | NotImplementedError string
  | AssertionError string
  | IndexError string
  | AttributeError string
  | TypeError string
  | UnicodeDecodeError
  | RuntimeAssertionFailure string
  | ExecutionError string

type_synonym kwargs = "(string \<times> pyval) list"

text \<open>
  The state the module acts on: the graph under construction, as the list of staged
  operations emitted so far, and the world \<open>'w\<close> the builtin print writes to (the
  console and the streams).
\<close>

record 'w state =
  graph :: "staged_op list"
  world :: 'w

text \<open>
  What the module takes from outside is a parameter of the model: the builtins of the
  host language it delegates to, the host's string conversion used in error messages,
  the Python version flag, the decoding of a byte string, the materialisation of a
  tensor at execution time, and the static dtype and shape that the operation library
  infers for the tensor a staged operation returns.
\<close>

type_synonym 'w action = "'w state \<Rightarrow> (exn + pyval) \<times> 'w state"

record 'w host =
  h_abs :: "pyval \<Rightarrow> exn + pyval"
  h_float :: "pyval \<Rightarrow> exn + pyval"
  h_int :: "pyval list \<Rightarrow> exn + pyval"
  h_len :: "pyval \<Rightarrow> exn + pyval"
  h_print :: "pyval list \<Rightarrow> kwargs \<Rightarrow> 'w \<Rightarrow> (exn + unit) \<times> 'w"
  h_range :: "pyval list \<Rightarrow> exn + pyval"
  h_enumerate :: "pyval \<Rightarrow> pyval \<Rightarrow> exn + pyval"
  h_str :: "pyval \<Rightarrow> string"
  h_PY3 :: bool
  h_decode_utf8 :: "string \<Rightarrow> exn + pyval"
  h_numpy :: "pyval \<Rightarrow> pyval"
  op_static :: "staged_op \<Rightarrow> dtype \<times> tensor_shape"

subsection \<open>Classification predicates\<close>

text \<open>
  Modelled from the spec: the classification predicates \<^verbatim>\<open>tensor_util.is_tensor\<close>,
  \<^verbatim>\<open>tensors.is_tensor_array\<close>, \<^verbatim>\<open>tensors.is_tensor_list\<close> and the test for a
  \<^verbatim>\<open>DatasetV2\<close> live outside the module. An array buffer is its own kind of object; a
  symbolic list is a tensor whose element kind is the variant one, so it is also a
  tensor, and is asked for first.
\<close>

fun is_tensor :: "pyval \<Rightarrow> bool" where
  "is_tensor (PTensor dt shp node) = True"
| "is_tensor v = False"

fun is_tensor_array :: "pyval \<Rightarrow> bool" where
  "is_tensor_array (PTensorArray i) = True"
| "is_tensor_array v = False"

fun is_tensor_list :: "pyval \<Rightarrow> bool" where
  "is_tensor_list (PTensor dt shp node) = (dt = DT_variant)"
| "is_tensor_list v = False"

fun is_dataset :: "pyval \<Rightarrow> bool" where
  "is_dataset (PDataset i) = True"
| "is_dataset (PEnumeratedDataset s start) = True"
| "is_dataset v = False"

subsection \<open>Staged operation constructors\<close>

text \<open>
  A staged operation constructor appends one node to the graph and returns the tensor
  the node produces, with the static dtype and shape the library infers for it. Only
  the nodes the module asks for are recorded, one per constructor call.
\<close>

definition stage :: "'w host \<Rightarrow> staged_op \<Rightarrow> 'w state \<Rightarrow> pyval \<times> 'w state" where
  "stage h node st =
     (PTensor (fst (op_static h node)) (snd (op_static h node)) node,
      st\<lparr>graph := graph st @ [node]\<rparr>)"

text \<open>
  Modelled from the spec: the shape query \<^verbatim>\<open>array_ops.shape\<close>. It returns a vector of
  integers, one per dimension of its argument, so the static shape of the vector has
  one dimension, whose size is the rank of the argument when that is known. The module
  calls it on tensors only; a value that is no tensor is taken for a scalar constant.
\<close>

fun array_ops_shape :: "pyval \<Rightarrow> 'w state \<Rightarrow> pyval \<times> 'w state" where
  "array_ops_shape (PTensor dt shp node) st =
     (PTensor DT_int32 (Some [map_option length shp]) (Shape (PTensor dt shp node)),
      st\<lparr>graph := graph st @ [Shape (PTensor dt shp node)]\<rparr>)"
| "array_ops_shape v st =
     (PTensor DT_int32 (Some [Some 0]) (Shape v), st\<lparr>graph := graph st @ [Shape v]\<rparr>)"

text \<open>\<^verbatim>\<open>x.dtype\<close> and \<^verbatim>\<open>x.shape\<close>: only a tensor has them.\<close>

fun dtype_of :: "pyval \<Rightarrow> exn + dtype" where
  "dtype_of (PTensor dt shp node) = Inr dt"
| "dtype_of v = Inl (AttributeError ''dtype'')"

fun shape_of :: "pyval \<Rightarrow> exn + tensor_shape" where
  "shape_of (PTensor dt shp node) = Inr shp"
| "shape_of v = Inl (AttributeError ''shape'')"

section \<open>abs, float and int\<close>

definition tf_abs :: "'w host \<Rightarrow> pyval \<Rightarrow> 'w action" where
  "tf_abs h x st = (let (t, st1) = stage h (Abs x) st in (Inr t, st1))"

definition py_abs :: "'w host \<Rightarrow> pyval \<Rightarrow> exn + pyval" where
  "py_abs h x = h_abs h x"

definition abs_overload :: "'w host \<Rightarrow> pyval \<Rightarrow> 'w action" where
  "abs_overload h x st = (if is_tensor x then tf_abs h x st else (py_abs h x, st))"

definition tf_float :: "'w host \<Rightarrow> pyval \<Rightarrow> 'w action" where
  "tf_float h x st =
     (case dtype_of x of
        Inl e \<Rightarrow> (Inl e, st)
      | Inr dt \<Rightarrow>
          if dt = DT_string then
            (let (t, st1) = stage h (StringToNumber x DT_float32) st in (Inr t, st1))
          else
            (let (t, st1) = stage h (Cast x DT_float32) st in (Inr t, st1)))"

definition py_float :: "'w host \<Rightarrow> pyval \<Rightarrow> exn + pyval" where
  "py_float h x = h_float h x"

text \<open>\<^verbatim>\<open>float_(x=0)\<close>: a call without argument binds \<open>x\<close> to \<open>PInt 0\<close>.\<close>

definition float_overload :: "'w host \<Rightarrow> pyval \<Rightarrow> 'w action" where
  "float_overload h x st = (if is_tensor x then tf_float h x st else (py_float h x, st))"

text \<open>
  Python's \<^verbatim>\<open>==\<close> between a value and an integer, on the values modelled here: a
  boolean is the integer 0 or 1.
\<close>

fun py_eq_int :: "pyval \<Rightarrow> int \<Rightarrow> bool" where
  "py_eq_int (PInt i) n = (i = n)"
| "py_eq_int (PBool b) n = ((if b then 1 else 0) = n)"
| "py_eq_int v n = False"

text \<open>
  \<^verbatim>\<open>_tf_int\<close>. \<^verbatim>\<open>base not in (10, UNSPECIFIED)\<close> compares \<open>base\<close> with 10 by
  equality and with the sentinel by identity.
\<close>

definition tf_int :: "'w host \<Rightarrow> pyval \<Rightarrow> pyval \<Rightarrow> 'w action" where
  "tf_int h x base st =
     (if \<not> (py_eq_int base 10 \<or> base = UNSPECIFIED) then
        (Inl (NotImplementedError (''base '' @ h_str h base @ '' not supported for int'')), st)
      else
        (case dtype_of x of
           Inl e \<Rightarrow> (Inl e, st)
         | Inr dt \<Rightarrow>
             if dt = DT_string then
               (let (t, st1) = stage h (StringToNumber x DT_int32) st in (Inr t, st1))
             else
               (let (t, st1) = stage h (Cast x DT_int32) st in (Inr t, st1))))"

definition py_int :: "'w host \<Rightarrow> pyval \<Rightarrow> pyval \<Rightarrow> exn + pyval" where
  "py_int h x base = (if base = UNSPECIFIED then h_int h [x] else h_int h [x, base])"

text \<open>\<^verbatim>\<open>int_(x=0, base=UNSPECIFIED)\<close>.\<close>

definition int_overload :: "'w host \<Rightarrow> pyval \<Rightarrow> pyval \<Rightarrow> 'w action" where
  "int_overload h x base st =
     (if is_tensor x then tf_int h x base st else (py_int h x base, st))"

section \<open>len\<close>

definition tf_tensor_array_len :: "'w host \<Rightarrow> pyval \<Rightarrow> 'w action" where
  "tf_tensor_array_len h s st =
     (let (t, st1) = stage h (TensorArraySize s) st in (Inr t, st1))"

definition tf_tensor_list_len :: "'w host \<Rightarrow> pyval \<Rightarrow> 'w action" where
  "tf_tensor_list_len h s st =
     (let (t, st1) = stage h (TensorListLength s) st in (Inr t, st1))"

text \<open>
  \<^verbatim>\<open>raise_zero_rank_error\<close>, the false branch of the conditional: a constant 0 that
  depends on an assertion that always fails, with the joined message.
\<close>

definition raise_zero_rank_error :: "'w host \<Rightarrow> pyval \<Rightarrow> 'w state \<Rightarrow> pyval \<times> 'w state" where
  "raise_zero_rank_error h rank st =
     (let (rank_str, st1) = stage h (AsString rank) st in
      let (msg, st2) =
            stage h (StringJoin [PStr ''len requires non-zero rank, got '', rank_str]) st1 in
      stage h (ControlDependencies [Assert (PBool False) [msg]] (Constant (PInt 0) DT_int32))
        st2)"

text \<open>
  \<^verbatim>\<open>_tf_tensor_len\<close>. The first test is
  \<^verbatim>\<open>s.shape.ndims and s.shape.dims[0].value is not None\<close>: false when the rank is
  unknown, false when the rank is 0, and otherwise true when the first dimension is
  known. \<^verbatim>\<open>assert shape.shape\<close> fails when the rank of the shape vector is unknown;
  \<^verbatim>\<open>shape.shape[0] == 0\<close> holds when its first dimension is known to be 0. The
  conditional is built from its predicate, then its true branch, then its false branch.
\<close>

definition tf_tensor_len :: "'w host \<Rightarrow> pyval \<Rightarrow> 'w action" where
  "tf_tensor_len h s st =
     (case shape_of s of
        Inl e \<Rightarrow> (Inl e, st)
      | Inr (Some (Some n # ds)) \<Rightarrow> (Inr (PInt (int n)), st)
      | Inr shp \<Rightarrow>
         (let (shape, st1) = array_ops_shape s st in
          case shape_of shape of
            Inl e \<Rightarrow> (Inl e, st1)
          | Inr None \<Rightarrow>
              (Inl (AssertionError (''shape tensor of zero size? '' @ h_str h shape)), st1)
          | Inr (Some []) \<Rightarrow> (Inl (IndexError ''list index out of range''), st1)
          | Inr (Some (d # ds)) \<Rightarrow>
              if d = Some 0 then
                (Inl (ValueError (''len requires a non-scalar tensor, got one of shape ''
                                  @ h_str h shape)), st1)
              else if d \<noteq> None then
                (let (shape2, st2) = array_ops_shape s st1 in
                 let (t, st3) = stage h (GetItem shape2 0) st2 in (Inr t, st3))
              else
                (let (rank, st2) = stage h (Rank s) st1 in
                 let (pred, st3) = stage h (Greater rank (PInt 0)) st2 in
                 let (shape2, st4) = array_ops_shape s st3 in
                 let (t, st5) = stage h (GetItem shape2 0) st4 in
                 let (f, st6) = raise_zero_rank_error h rank st5 in
                 let (r, st7) = stage h (Cond pred t f) st6 in (Inr r, st7))))"

definition py_len :: "'w host \<Rightarrow> pyval \<Rightarrow> exn + pyval" where
  "py_len h s = h_len h s"

definition len_overload :: "'w host \<Rightarrow> pyval \<Rightarrow> 'w action" where
  "len_overload h s st =
     (if is_tensor_array s then tf_tensor_array_len h s st
      else if is_tensor_list s then tf_tensor_list_len h s st
      else if is_tensor s then tf_tensor_len h s st
      else (py_len h s, st))"

section \<open>print\<close>

text \<open>
  How Python writes a tuple of strings into a message: each string between quotes
  (the strings here are keyword names, which need no escaping), separated by a comma
  and a space, with a trailing comma when there is one element only.
\<close>

definition repr_str :: "string \<Rightarrow> string" where
  "repr_str s = [CHR 0x27] @ s @ [CHR 0x27]"

fun join_comma :: "string list \<Rightarrow> string" where
  "join_comma [] = []"
| "join_comma [s] = s"
| "join_comma (s # ss) = s @ '', '' @ join_comma ss"

definition str_tuple :: "string list \<Rightarrow> string" where
  "str_tuple ks =
     (case ks of
        [k] \<Rightarrow> ''('' @ repr_str k @ '',)''
      | _ \<Rightarrow> ''('' @ join_comma (map repr_str ks) @ '')'')"

definition py_print ::
  "'w host \<Rightarrow> pyval list \<Rightarrow> kwargs \<Rightarrow> 'w state \<Rightarrow> (exn + unit) \<times> 'w state" where
  "py_print h objects kwargs st =
     (let (r, w) = h_print h objects kwargs (world st) in (r, st\<lparr>world := w\<rparr>))"

text \<open>
  Modelled from the spec: the foreign-callback constructor \<^verbatim>\<open>py_func.wrap_py_func\<close>. It
  adds to the graph one node that holds the closure, the result descriptor, the
  arguments and the dummy-return flag, and returns the tensor of that node.
\<close>

definition wrap_py_func ::
  "'w host \<Rightarrow> closure \<Rightarrow> pyval \<Rightarrow> pyval list \<Rightarrow> bool \<Rightarrow> 'w action" where
  "wrap_py_func h f return_dtypes args use_dummy_return st =
     (let (t, st1) = stage h (WrapPyFunc f return_dtypes args use_dummy_return) st
      in (Inr t, st1))"

text \<open>
  \<^verbatim>\<open>print_wrapper\<close>, the closure that runs at execution time with the keyword
  arguments it captured: it materialises the tensors among its values, decodes the
  byte strings under Python 3, and calls the print of the host (\<^verbatim>\<open>six.print_\<close>).
\<close>

fun decode_vals :: "'w host \<Rightarrow> pyval list \<Rightarrow> exn + pyval list" where
  "decode_vals h [] = Inr []"
| "decode_vals h (v # vs) =
     (case (case v of PBytes b \<Rightarrow> h_decode_utf8 h b | _ \<Rightarrow> Inr v) of
        Inl e \<Rightarrow> Inl e
      | Inr v' \<Rightarrow> (case decode_vals h vs of Inl e \<Rightarrow> Inl e | Inr vs' \<Rightarrow> Inr (v' # vs')))"

definition print_wrapper ::
  "'w host \<Rightarrow> kwargs \<Rightarrow> pyval list \<Rightarrow> 'w state \<Rightarrow> (exn + unit) \<times> 'w state" where
  "print_wrapper h override_kwargs vals st =
     (let vals1 = map (\<lambda>v. if is_tensor v then h_numpy h v else v) vals in
      case (if h_PY3 h then decode_vals h vals1 else Inr vals1) of
        Inl e \<Rightarrow> (Inl e, st)
      | Inr vals2 \<Rightarrow> py_print h vals2 override_kwargs st)"

fun run_closure ::
  "'w host \<Rightarrow> closure \<Rightarrow> pyval list \<Rightarrow> 'w state \<Rightarrow> (exn + unit) \<times> 'w state" where
  "run_closure h (PrintWrapper override_kwargs) vals st =
     print_wrapper h override_kwargs vals st"

text \<open>
  \<^verbatim>\<open>_tf_py_func_print\<close>. The dictionary of keyword arguments is a list of pairs with
  distinct keys; the comprehension keeps the pairs whose value is not the sentinel.
\<close>

definition tf_py_func_print :: "'w host \<Rightarrow> pyval list \<Rightarrow> kwargs \<Rightarrow> 'w action" where
  "tf_py_func_print h objects kwargs st =
     (let override_kwargs = filter (\<lambda>(k, v). v \<noteq> UNSPECIFIED) kwargs;
          override_kwargs =
            (if ''flush'' \<notin> set (map fst override_kwargs)
             then override_kwargs @ [(''flush'', PBool True)]
             else override_kwargs)
      in wrap_py_func h (PrintWrapper override_kwargs) PNone objects True st)"

text \<open>
  \<^verbatim>\<open>print_\<close>. The keywords it accepts are those of the tuple
  \<^verbatim>\<open>('sep', 'end', 'file', 'flush')\<close>. The difference of the two sets is taken in
  the order of the keyword arguments (Python leaves the order of a set open).
\<close>

definition recognized_keywords :: "string list" where
  "recognized_keywords = [''sep'', ''end'', ''file'', ''flush'']"

definition print_overload :: "'w host \<Rightarrow> pyval list \<Rightarrow> kwargs \<Rightarrow> 'w action" where
  "print_overload h objects kwargs st =
     (let unknown_kwargs =
            filter (\<lambda>k. k \<notin> set recognized_keywords) (remdups (map fst kwargs))
      in if unknown_kwargs \<noteq> [] then
           (Inl (ValueError (''invalid keyword arguments: '' @ str_tuple unknown_kwargs)), st)
         else if list_ex is_tensor objects then
           tf_py_func_print h objects kwargs st
         else
           (case py_print h objects kwargs st of
              (Inl e, st1) \<Rightarrow> (Inl e, st1)
            | (Inr u, st1) \<Rightarrow> (Inr PNone, st1)))"

section \<open>range\<close>

definition math_ops_range :: "'w host \<Rightarrow> pyval list \<Rightarrow> 'w action" where
  "math_ops_range h args st = (let (t, st1) = stage h (Range args) st in (Inr t, st1))"

definition math_ops_maximum ::
  "'w host \<Rightarrow> pyval \<Rightarrow> pyval \<Rightarrow> 'w state \<Rightarrow> pyval \<times> 'w state" where
  "math_ops_maximum h x y st = stage h (Maximum x y) st"

definition tf_range :: "'w host \<Rightarrow> pyval \<Rightarrow> pyval \<Rightarrow> pyval \<Rightarrow> 'w action" where
  "tf_range h start_or_stop stop step st =
     (if step \<noteq> UNSPECIFIED then
        math_ops_range h [start_or_stop, stop, step] st
      else if stop \<noteq> UNSPECIFIED then
        (let (stop1, st1) = math_ops_maximum h start_or_stop stop st
         in math_ops_range h [start_or_stop, stop1] st1)
      else
        (let (start_or_stop1, st1) = math_ops_maximum h start_or_stop (PInt 0) st
         in math_ops_range h [start_or_stop1] st1))"

definition py_range :: "'w host \<Rightarrow> pyval \<Rightarrow> pyval \<Rightarrow> pyval \<Rightarrow> exn + pyval" where
  "py_range h start_or_stop stop step =
     (if step \<noteq> UNSPECIFIED then h_range h [start_or_stop, stop, step]
      else if stop \<noteq> UNSPECIFIED then h_range h [start_or_stop, stop]
      else h_range h [start_or_stop])"

text \<open>\<^verbatim>\<open>range_(start_or_stop, stop=UNSPECIFIED, step=UNSPECIFIED)\<close>.\<close>

definition range_overload :: "'w host \<Rightarrow> pyval \<Rightarrow> pyval \<Rightarrow> pyval \<Rightarrow> 'w action" where
  "range_overload h start_or_stop stop step st =
     (if list_ex is_tensor [start_or_stop, stop, step]
      then tf_range h start_or_stop stop step st
      else (py_range h start_or_stop stop step, st))"

section \<open>enumerate\<close>

text \<open>
  Modelled from the spec: the pairing-with-index primitive of a deferred sequence
  source, \<^verbatim>\<open>s.enumerate(start)\<close>, returns another such source.
\<close>

definition tf_dataset_enumerate :: "'w host \<Rightarrow> pyval \<Rightarrow> pyval \<Rightarrow> 'w action" where
  "tf_dataset_enumerate h s start st = (Inr (PEnumeratedDataset s start), st)"

definition py_enumerate :: "'w host \<Rightarrow> pyval \<Rightarrow> pyval \<Rightarrow> exn + pyval" where
  "py_enumerate h s start = h_enumerate h s start"

text \<open>\<^verbatim>\<open>enumerate_(s, start=0)\<close>.\<close>

definition enumerate_overload :: "'w host \<Rightarrow> pyval \<Rightarrow> pyval \<Rightarrow> 'w action" where
  "enumerate_overload h s start st =
     (if is_dataset s then tf_dataset_enumerate h s start st
      else (py_enumerate h s start, st))"

section \<open>Evaluation in the caller's context\<close>

text \<open>
  A frame of the call stack, with its globals, its locals and the frame of its caller
  (\<^verbatim>\<open>f_back\<close>, \<open>None\<close> for the outermost frame). A reference that may be Python's
  \<^verbatim>\<open>None\<close> is a \<open>frame option\<close>; reading an attribute of \<^verbatim>\<open>None\<close> raises.
\<close>

datatype frame = Frame (f_globals: pyval) (f_locals: pyval) (f_back: "frame option")

definition get_f_back :: "frame option \<Rightarrow> exn + frame option" where
  "get_f_back c =
     (case c of
        None \<Rightarrow> Inl (AttributeError ''NoneType object has no attribute f_back'')
      | Some fr \<Rightarrow> Inr (f_back fr))"

definition get_f_globals :: "frame option \<Rightarrow> exn + pyval" where
  "get_f_globals c =
     (case c of
        None \<Rightarrow> Inl (AttributeError ''NoneType object has no attribute f_globals'')
      | Some fr \<Rightarrow> Inr (f_globals fr))"

definition get_f_locals :: "frame option \<Rightarrow> exn + pyval" where
  "get_f_locals c =
     (case c of
        None \<Rightarrow> Inl (AttributeError ''NoneType object has no attribute f_locals'')
      | Some fr \<Rightarrow> Inr (f_locals fr))"

text \<open>The loop \<^verbatim>\<open>for _ in range(n): ctx_frame = ctx_frame.f_back\<close>.\<close>

fun walk_back :: "nat \<Rightarrow> frame option \<Rightarrow> exn + frame option" where
  "walk_back 0 c = Inr c"
| "walk_back (Suc n) c =
     (case get_f_back c of Inl e \<Rightarrow> Inl e | Inr c' \<Rightarrow> walk_back n c')"

text \<open>
  \<^verbatim>\<open>eval_in_original_context\<close>. \<open>cur\<close> is the frame of the call itself, what
  \<^verbatim>\<open>inspect.currentframe()\<close> returns; \<open>range(caller_level_delta + 1)\<close> is empty when
  its bound is not positive. The elements of the new tuple are evaluated in order,
  and a conditional expression evaluates only the branch it takes.
\<close>

definition eval_in_original_context ::
  "(pyval list \<Rightarrow> exn + 'r) \<Rightarrow> pyval list \<Rightarrow> int \<Rightarrow> frame \<Rightarrow> exn + 'r" where
  "eval_in_original_context f args caller_level_delta cur =
     (case walk_back (nat (caller_level_delta + 1)) (Some cur) of
        Inl e \<Rightarrow> Inl e
      | Inr ctx_frame \<Rightarrow>
          (case args of
             [] \<Rightarrow> Inl (IndexError ''tuple index out of range'')
           | a0 # rest \<Rightarrow>
               (case (if length args < 2 then get_f_globals ctx_frame else Inr (args ! 1)) of
                  Inl e \<Rightarrow> Inl e
                | Inr g \<Rightarrow>
                    (case (if length args < 3 then get_f_locals ctx_frame
                           else Inr (args ! 2)) of
                       Inl e \<Rightarrow> Inl e
                     | Inr l \<Rightarrow> f [a0, g, l]))))"

text \<open>The number of frames above a frame, up to the outermost one.\<close>

fun frames_above :: "frame \<Rightarrow> nat" where
  "frames_above (Frame g l None) = 0"
| "frames_above (Frame g l (Some fr)) = Suc (frames_above fr)"

section \<open>Execution of staged operations\<close>

text \<open>
  Modelled from the spec: the engine that later runs the graph is outside the module.
  The operations the length and range overloads build are given their meaning here:
  the shape query returns the dimensions of the materialised array, the rank their
  number, the conditional runs the branch its predicate selects, an assertion on a
  false condition fails with its joined message, and an operation under control
  dependencies runs after them. A materialised array is kept as its dimensions.
\<close>

datatype rtval = RNone | RBool bool | RInt int | RStr string | RVec "int list" | RArray "nat list"

type_synonym feed = "nat \<Rightarrow> rtval option"

fun rt_shape :: "rtval \<Rightarrow> nat list" where
  "rt_shape (RArray dims) = dims"
| "rt_shape (RVec xs) = [length xs]"
| "rt_shape v = []"

definition digit_char :: "nat \<Rightarrow> char" where
  "digit_char d = ''0123456789'' ! d"

function string_of_nat :: "nat \<Rightarrow> string" where
  "string_of_nat n =
     (if n < 10 then [digit_char n] else string_of_nat (n div 10) @ [digit_char (n mod 10)])"
  by pat_completeness auto
termination
  by (relation "measure id") auto

definition as_string :: "int \<Rightarrow> string" where
  "as_string i =
     (if i < 0 then ''-'' @ string_of_nat (nat (- i)) else string_of_nat (nat i))"

definition range_values :: "int \<Rightarrow> int \<Rightarrow> int \<Rightarrow> exn + rtval" where
  "range_values start limit delta =
     (if delta = 0 then Inl (ExecutionError ''Requires delta != 0'')
      else if 0 < delta \<and> limit < start then
        Inl (ExecutionError ''Requires start <= limit when delta > 0'')
      else if delta < 0 \<and> start < limit then
        Inl (ExecutionError ''Requires start >= limit when delta < 0'')
      else Inr (RVec (map (\<lambda>k. start + int k * delta)
                          [0 ..< nat ((\<bar>limit - start\<bar> + \<bar>delta\<bar> - 1) div \<bar>delta\<bar>)])))"

fun rt_strings :: "rtval list \<Rightarrow> exn + string" where
  "rt_strings [] = Inr []"
| "rt_strings (RStr s # vs) =
     (case rt_strings vs of Inl e \<Rightarrow> Inl e | Inr t \<Rightarrow> Inr (s @ t))"
| "rt_strings (v # vs) = Inl (ExecutionError ''expected a string'')"

fun exec_val :: "feed \<Rightarrow> pyval \<Rightarrow> exn + rtval"
  and exec_vals :: "feed \<Rightarrow> pyval list \<Rightarrow> exn + rtval list"
  and exec_op :: "feed \<Rightarrow> staged_op \<Rightarrow> exn + rtval"
  and exec_ops :: "feed \<Rightarrow> staged_op list \<Rightarrow> exn + unit"
where
  "exec_val fd (PTensor dt shp node) = exec_op fd node"
| "exec_val fd (PInt i) = Inr (RInt i)"
| "exec_val fd (PBool b) = Inr (RBool b)"
| "exec_val fd (PStr s) = Inr (RStr s)"
| "exec_val fd v = Inl (ExecutionError ''unsupported operand'')"
| "exec_vals fd [] = Inr []"
| "exec_vals fd (v # vs) =
     (case exec_val fd v of
        Inl e \<Rightarrow> Inl e
      | Inr r \<Rightarrow> (case exec_vals fd vs of Inl e \<Rightarrow> Inl e | Inr rs \<Rightarrow> Inr (r # rs)))"
| "exec_op fd (Placeholder i) =
     (case fd i of None \<Rightarrow> Inl (ExecutionError ''placeholder not fed'') | Some r \<Rightarrow> Inr r)"
| "exec_op fd (Constant v dt) = exec_val fd v"
| "exec_op fd (Shape x) =
     (case exec_val fd x of Inl e \<Rightarrow> Inl e | Inr r \<Rightarrow> Inr (RVec (map int (rt_shape r))))"
| "exec_op fd (Rank x) =
     (case exec_val fd x of
        Inl e \<Rightarrow> Inl e
      | Inr r \<Rightarrow> Inr (RInt (int (length (rt_shape r)))))"
| "exec_op fd (GetItem x i) =
     (case exec_val fd x of
        Inl e \<Rightarrow> Inl e
      | Inr (RVec xs) \<Rightarrow>
          if i < length xs then Inr (RInt (xs ! i))
          else Inl (ExecutionError ''slice index out of bounds'')
      | Inr r \<Rightarrow> Inl (ExecutionError ''expected a vector''))"
| "exec_op fd (Greater a b) =
     (case exec_val fd a of
        Inl e \<Rightarrow> Inl e
      | Inr (RInt x) \<Rightarrow>
          (case exec_val fd b of
             Inl e \<Rightarrow> Inl e
           | Inr (RInt y) \<Rightarrow> Inr (RBool (y < x))
           | Inr r \<Rightarrow> Inl (ExecutionError ''expected an integer''))
      | Inr r \<Rightarrow> Inl (ExecutionError ''expected an integer''))"
| "exec_op fd (Maximum a b) =
     (case exec_val fd a of
        Inl e \<Rightarrow> Inl e
      | Inr (RInt x) \<Rightarrow>
          (case exec_val fd b of
             Inl e \<Rightarrow> Inl e
           | Inr (RInt y) \<Rightarrow> Inr (RInt (max x y))
           | Inr r \<Rightarrow> Inl (ExecutionError ''expected an integer''))
      | Inr r \<Rightarrow> Inl (ExecutionError ''expected an integer''))"
| "exec_op fd (StringJoin xs) =
     (case exec_vals fd xs of
        Inl e \<Rightarrow> Inl e
      | Inr rs \<Rightarrow> (case rt_strings rs of Inl e \<Rightarrow> Inl e | Inr s \<Rightarrow> Inr (RStr s)))"
| "exec_op fd (AsString x) =
     (case exec_val fd x of
        Inl e \<Rightarrow> Inl e
      | Inr (RInt i) \<Rightarrow> Inr (RStr (as_string i))
      | Inr r \<Rightarrow> Inl (ExecutionError ''expected an integer''))"
| "exec_op fd (Assert c data) =
     (case exec_val fd c of
        Inl e \<Rightarrow> Inl e
      | Inr (RBool True) \<Rightarrow> Inr RNone
      | Inr (RBool False) \<Rightarrow>
          (case exec_vals fd data of
             Inl e \<Rightarrow> Inl e
           | Inr rs \<Rightarrow>
               (case rt_strings rs of
                  Inl e \<Rightarrow> Inl e
                | Inr s \<Rightarrow> Inl (RuntimeAssertionFailure s)))
      | Inr r \<Rightarrow> Inl (ExecutionError ''expected a boolean''))"
| "exec_op fd (ControlDependencies deps node) =
     (case exec_ops fd deps of Inl e \<Rightarrow> Inl e | Inr u \<Rightarrow> exec_op fd node)"
| "exec_op fd (Cond p t f) =
     (case exec_val fd p of
        Inl e \<Rightarrow> Inl e
      | Inr (RBool b) \<Rightarrow> if b then exec_val fd t else exec_val fd f
      | Inr r \<Rightarrow> Inl (ExecutionError ''expected a boolean''))"
| "exec_op fd (Range args) =
     (case exec_vals fd args of
        Inl e \<Rightarrow> Inl e
      | Inr [RInt limit] \<Rightarrow> range_values 0 limit 1
      | Inr [RInt start, RInt limit] \<Rightarrow> range_values start limit 1
      | Inr [RInt start, RInt limit, RInt delta] \<Rightarrow> range_values start limit delta
      | Inr rs \<Rightarrow> Inl (ExecutionError ''expected one to three integers''))"
| "exec_op fd node = Inl (ExecutionError ''operation not modelled'')"
| "exec_ops fd [] = Inr ()"
| "exec_ops fd (node # nodes) =
     (case exec_op fd node of Inl e \<Rightarrow> Inl e | Inr r \<Rightarrow> exec_ops fd nodes)"

section \<open>A host to run the model on\<close>

text \<open>
  The builtins len and range of the host language on the values modelled here, as the
  language defines them: the length of a string, a byte string, a list, a tuple, a
  dictionary or a range, and the range object of one to three integers.
\<close>

definition range_length :: "int \<Rightarrow> int \<Rightarrow> int \<Rightarrow> int" where
  "range_length start stop step =
     (if 0 < step \<and> start < stop then (stop - start - 1) div step + 1
      else if step < 0 \<and> stop < start then (start - stop - 1) div (- step) + 1
      else 0)"

fun builtin_len :: "pyval \<Rightarrow> exn + pyval" where
  "builtin_len (PStr s) = Inr (PInt (int (length s)))"
| "builtin_len (PBytes b) = Inr (PInt (int (length b)))"
| "builtin_len (PList xs) = Inr (PInt (int (length xs)))"
| "builtin_len (PTuple xs) = Inr (PInt (int (length xs)))"
| "builtin_len (PDict kvs) = Inr (PInt (int (length kvs)))"
| "builtin_len (PRange start stop step) = Inr (PInt (range_length start stop step))"
| "builtin_len v = Inl (TypeError ''object has no len()'')"

fun py_index :: "pyval \<Rightarrow> exn + int" where
  "py_index (PInt i) = Inr i"
| "py_index (PBool b) = Inr (if b then 1 else 0)"
| "py_index v = Inl (TypeError ''object cannot be interpreted as an integer'')"

fun builtin_range :: "pyval list \<Rightarrow> exn + pyval" where
  "builtin_range [a] =
     (case py_index a of Inl e \<Rightarrow> Inl e | Inr stop \<Rightarrow> Inr (PRange 0 stop 1))"
| "builtin_range [a, b] =
     (case py_index a of
        Inl e \<Rightarrow> Inl e
      | Inr start \<Rightarrow>
          (case py_index b of Inl e \<Rightarrow> Inl e | Inr stop \<Rightarrow> Inr (PRange start stop 1)))"
| "builtin_range [a, b, c] =
     (case py_index a of
        Inl e \<Rightarrow> Inl e
      | Inr start \<Rightarrow>
          (case py_index b of
             Inl e \<Rightarrow> Inl e
           | Inr stop \<Rightarrow>
               (case py_index c of
                  Inl e \<Rightarrow> Inl e
                | Inr step \<Rightarrow>
                    if step = 0 then Inl (ValueError ''range() arg 3 must not be zero'')
                    else Inr (PRange start stop step))))"
| "builtin_range args = Inl (TypeError ''range expected 1 to 3 arguments'')"

fun builtin_abs :: "pyval \<Rightarrow> exn + pyval" where
  "builtin_abs (PInt i) = Inr (PInt \<bar>i\<bar>)"
| "builtin_abs (PBool b) = Inr (PInt (if b then 1 else 0))"
| "builtin_abs v = Inl (TypeError ''bad operand type for abs()'')"

text \<open>
  A host for running the model on concrete inputs. Its world is the list of the calls
  print has received. Its abs, len and range are the builtins above; the conversions
  float and int, enumerate and the materialisation of tensors are outside the values
  modelled, and this host answers them with a fixed value.
\<close>

definition run_host :: "(pyval list \<times> kwargs) list host" where
  "run_host =
     \<lparr> h_abs = builtin_abs,
       h_float = (\<lambda>x. Inr (PObject 0)),
       h_int = (\<lambda>args. Inr (PObject 1)),
       h_len = builtin_len,
       h_print = (\<lambda>objects kw w. (Inr (), w @ [(objects, kw)])),
       h_range = builtin_range,
       h_enumerate = (\<lambda>s start. Inr (PObject 2)),
       h_str = (\<lambda>v. ''<object>''),
       h_PY3 = True,
       h_decode_utf8 = (\<lambda>b. Inr (PStr b)),
       h_numpy = (\<lambda>v. PObject 3),
       op_static = (\<lambda>node. (DT_int32, None)) \<rparr>"

definition empty_state :: "(pyval list \<times> kwargs) list state" where
  "empty_state = \<lparr> graph = [], world = [] \<rparr>"

text \<open>Tensors of the four kinds of static shape the length overload tells apart.\<close>

definition example_matrix :: pyval where
  "example_matrix = PTensor DT_float32 (Some [Some 3, Some 4]) (Placeholder 0)"

definition example_unknown_rank :: pyval where
  "example_unknown_rank = PTensor DT_float32 None (Placeholder 0)"

definition example_unknown_rows :: pyval where
  "example_unknown_rows = PTensor DT_float32 (Some [None, Some 4]) (Placeholder 0)"

definition example_scalar :: pyval where
  "example_scalar = PTensor DT_float32 (Some []) (Placeholder 0)"

text \<open>A scalar integer tensor and a scalar text tensor, fed when the graph runs.\<close>

definition example_limit :: pyval where
  "example_limit = PTensor DT_int32 (Some []) (Placeholder 1)"

definition example_text :: pyval where
  "example_text = PTensor DT_string (Some []) (Placeholder 2)"

text \<open>The frame of a call made from the top level of a module, and that of the module.\<close>

definition example_module_frame :: frame where
  "example_module_frame = Frame (PDict []) (PDict []) None"

definition example_caller_frame :: frame where
  "example_caller_frame = Frame (PDict []) (PDict []) (Some example_module_frame)"

section \<open>Properties of len\<close>

lemma as_string_0: "as_string 0 = ''0''"
  by (simp add: as_string_def digit_char_def)

lemma as_string_2: "as_string 2 = ''2''"
  by (simp add: as_string_def digit_char_def)

text \<open>
  C2. On a tensor that is not a symbolic list, whose rank is known and whose first
  dimension is statically known to be \<open>n\<close>, the length overload returns the plain
  integer \<open>n\<close> and leaves the graph as it was: no staged operation is emitted.
\<close>

theorem len_static_leading_dimension:
  assumes "dt \<noteq> DT_variant"
  shows "len_overload h (PTensor dt (Some (Some n # ds)) node) st = (Inr (PInt (int n)), st)"
  using assms by (simp add: len_overload_def tf_tensor_len_def)

theorem len_static_leading_dimension_witness:
  "DT_float32 \<noteq> DT_variant \<and>
   len_overload run_host (PTensor DT_float32 (Some [Some 3, Some 4]) (Placeholder 0))
     empty_state = (Inr (PInt 3), empty_state)"
  using len_static_leading_dimension
    [of DT_float32 run_host 3 "[Some 4]" "Placeholder 0" empty_state]
  by simp

text \<open>
  C3. On a tensor of unknown rank the length overload succeeds when it is called and
  returns a staged conditional. When the graph runs on a materialised array, the
  predicate of the conditional tells whether the rank of the array is positive; the
  false branch, at any rank, fails with an assertion failure whose message is the
  fixed text followed by the rank observed; the conditional yields the first dimension
  of the array if the array has one, and otherwise fails as its false branch does, so
  with \<open>len requires non-zero rank, got 0\<close>.
\<close>

theorem len_unknown_rank:
  assumes "dt \<noteq> DT_variant" and "s = PTensor dt None node"
  shows "\<exists>r st' d sh p t f.
           len_overload h s st = (Inr r, st') \<and> r = PTensor d sh (Cond p t f) \<and>
           (\<forall>fd v. exec_val fd s = Inr v \<longrightarrow>
              exec_val fd p = Inr (RBool (0 < length (rt_shape v))) \<and>
              exec_val fd f =
                Inl (RuntimeAssertionFailure
                       (''len requires non-zero rank, got ''
                        @ as_string (int (length (rt_shape v))))) \<and>
              (rt_shape v \<noteq> [] \<longrightarrow> exec_val fd r = Inr (RInt (int (hd (rt_shape v))))) \<and>
              (rt_shape v = [] \<longrightarrow>
                 exec_val fd r =
                   Inl (RuntimeAssertionFailure
                          (''len requires non-zero rank, got ''
                           @ as_string (int (length (rt_shape v))))) \<and>
                 exec_val fd r =
                   Inl (RuntimeAssertionFailure ''len requires non-zero rank, got 0'')))"
  using assms
  apply (simp add: len_overload_def tf_tensor_len_def raise_zero_rank_error_def stage_def
      Let_def as_string_0)
  apply (auto simp: hd_map as_string_0 hd_conv_nth split: list.splits)
  done

theorem len_unknown_rank_witness:
  "DT_float32 \<noteq> DT_variant \<and>
   (\<exists>r st' d sh p t f.
      len_overload run_host example_unknown_rank empty_state = (Inr r, st') \<and>
      r = PTensor d sh (Cond p t f) \<and>
      exec_val (\<lambda>i. Some (RArray [7, 2])) example_unknown_rank = Inr (RArray [7, 2]) \<and>
      rt_shape (RArray [7, 2]) \<noteq> [] \<and>
      exec_val (\<lambda>i. Some (RArray [7, 2])) p = Inr (RBool True) \<and>
      exec_val (\<lambda>i. Some (RArray [7, 2])) f =
        Inl (RuntimeAssertionFailure ''len requires non-zero rank, got 2'') \<and>
      exec_val (\<lambda>i. Some (RArray [7, 2])) r = Inr (RInt 7) \<and>
      exec_val (\<lambda>i. Some (RArray [])) example_unknown_rank = Inr (RArray []) \<and>
      rt_shape (RArray []) = [] \<and>
      exec_val (\<lambda>i. Some (RArray [])) p = Inr (RBool False) \<and>
      exec_val (\<lambda>i. Some (RArray [])) f =
        Inl (RuntimeAssertionFailure ''len requires non-zero rank, got 0'') \<and>
      exec_val (\<lambda>i. Some (RArray [])) r =
        Inl (RuntimeAssertionFailure ''len requires non-zero rank, got 0''))"
  using len_unknown_rank [where dt = DT_float32 and s = example_unknown_rank
      and node = "Placeholder 0" and h = run_host and st = empty_state]
  by (simp add: example_unknown_rank_def len_overload_def tf_tensor_len_def
      raise_zero_rank_error_def stage_def run_host_def empty_state_def as_string_0
      as_string_2)

text \<open>
  C4, as the code has it. On a tensor that is not a symbolic list and whose rank is
  known, what is statically known of the first dimension is what the static shape
  holds, and the shape query does not change it. If the rank is 0 the length overload
  queries the dynamic shape and fails when it is called, with a ValueError whose
  message is \<open>len requires a non-scalar tensor, got one of shape\<close> followed by the shape
  tensor. Otherwise it returns the first dimension as a plain integer if that is
  statically known, and else the staged first element of the dynamic shape, after two
  shape queries; when the graph runs this element is the first dimension of the
  materialised array.
\<close>

theorem len_known_rank:
  assumes "dt \<noteq> DT_variant" and "s = PTensor dt (Some dims) node"
  shows "(dims = [] \<longrightarrow>
            len_overload h s st =
              (Inl (ValueError (''len requires a non-scalar tensor, got one of shape ''
                                @ h_str h (fst (array_ops_shape s st)))),
               snd (array_ops_shape s st))) \<and>
         (\<forall>n ds. dims = Some n # ds \<longrightarrow> len_overload h s st = (Inr (PInt (int n)), st)) \<and>
         (\<forall>ds. dims = None # ds \<longrightarrow>
            (\<exists>r st' d sh shape.
               len_overload h s st = (Inr r, st') \<and>
               r = PTensor d sh (GetItem shape 0) \<and>
               shape = fst (array_ops_shape s st) \<and>
               graph st' = graph st @ [Shape s, Shape s, GetItem shape 0] \<and>
               (\<forall>fd v. exec_val fd s = Inr v \<and> rt_shape v \<noteq> [] \<longrightarrow>
                  exec_val fd r = Inr (RInt (int (hd (rt_shape v)))))))"
  using assms
  apply (cases dims)
   apply (simp add: len_overload_def tf_tensor_len_def)
  apply (auto simp add: len_overload_def tf_tensor_len_def stage_def Let_def hd_map
      hd_conv_nth)
  done

theorem len_known_rank_witness:
  "DT_float32 \<noteq> DT_variant \<and>
   len_overload run_host example_scalar empty_state =
     (Inl (ValueError ''len requires a non-scalar tensor, got one of shape <object>''),
      \<lparr>graph = [Shape example_scalar], world = []\<rparr>) \<and>
   [Some 3, Some (4::nat)] = Some 3 # [Some 4] \<and>
   len_overload run_host example_matrix empty_state = (Inr (PInt 3), empty_state) \<and>
   [None, Some (4::nat)] = None # [Some 4] \<and>
   (\<exists>r st'. len_overload run_host example_unknown_rows empty_state = (Inr r, st') \<and>
      graph st' =
        [Shape example_unknown_rows, Shape example_unknown_rows,
         GetItem (PTensor DT_int32 (Some [Some 2]) (Shape example_unknown_rows)) 0] \<and>
      exec_val (\<lambda>i. Some (RArray [7, 4])) example_unknown_rows = Inr (RArray [7, 4]) \<and>
      rt_shape (RArray [7, 4]) \<noteq> [] \<and>
      exec_val (\<lambda>i. Some (RArray [7, 4])) r = Inr (RInt 7))"
  using len_known_rank [where dt = DT_float32 and s = example_scalar
      and dims = "[]" and node = "Placeholder 0" and h = run_host and st = empty_state]
    len_known_rank [where dt = DT_float32 and s = example_matrix
      and dims = "[Some 3, Some 4]" and node = "Placeholder 0" and h = run_host
      and st = empty_state]
    len_known_rank [where dt = DT_float32 and s = example_unknown_rows
      and dims = "[None, Some 4]" and node = "Placeholder 0" and h = run_host
      and st = empty_state]
  by (simp add: example_scalar_def example_matrix_def example_unknown_rows_def
      len_overload_def tf_tensor_len_def stage_def run_host_def empty_state_def)

text \<open>
  C4, as the spec states it, fails on a tensor of rank 0 in the text of the error: the
  message of the ValueError is not the one the spec quotes, and does not contain it.
\<close>

theorem len_known_rank_counterexample:
  "shape_of example_scalar = Inr (Some []) \<and>
   len_overload run_host example_scalar empty_state =
     (Inl (ValueError ''len requires a non-scalar tensor, got one of shape <object>''),
      \<lparr>graph = [Shape example_scalar], world = []\<rparr>) \<and>
   ''len requires a non-scalar tensor, got one of shape <object>'' \<noteq>
     ''len requires a non-scalar value'' \<and>
   \<not> sublist ''len requires a non-scalar value''
        ''len requires a non-scalar tensor, got one of shape <object>''"
  apply (simp add: example_scalar_def len_overload_def tf_tensor_len_def stage_def
      run_host_def empty_state_def)
  apply code_simp
  done

section \<open>Properties of the native paths\<close>

text \<open>
  C1. On arguments that are not symbolic, each overload returns what the builtin of the
  host returns on the same arguments, and leaves the graph as it was: abs, float, int
  without and with a base, len (on a value that is no array buffer, no symbolic list
  and no tensor), print (which has checked its keywords before it chooses a path, so
  the native path is reached with recognised keywords only; it returns None and the
  world is the one the builtin leaves), range with one, two and three arguments, and
  enumerate (on a value that is no deferred sequence source). With the builtin len,
  the length of \<open>abc\<close> is 3, and the range overload on 5 is the builtin range on 5.
\<close>

theorem native_path_is_builtin:
  "(\<not> is_tensor x \<longrightarrow> abs_overload h x st = (h_abs h x, st)) \<and>
   (\<not> is_tensor x \<longrightarrow> float_overload h x st = (h_float h x, st)) \<and>
   (\<not> is_tensor x \<longrightarrow> int_overload h x UNSPECIFIED st = (h_int h [x], st)) \<and>
   (\<not> is_tensor x \<and> base \<noteq> UNSPECIFIED \<longrightarrow>
      int_overload h x base st = (h_int h [x, base], st)) \<and>
   (\<not> is_tensor_array s \<and> \<not> is_tensor_list s \<and> \<not> is_tensor s \<longrightarrow>
      len_overload h s st = (h_len h s, st)) \<and>
   (\<not> list_ex is_tensor objects \<and> set (map fst kwargs) \<subseteq> set recognized_keywords \<longrightarrow>
      print_overload h objects kwargs st =
        (map_sum id (\<lambda>u. PNone) (fst (h_print h objects kwargs (world st))),
         st\<lparr>world := snd (h_print h objects kwargs (world st))\<rparr>)) \<and>
   (\<not> is_tensor a \<longrightarrow>
      range_overload h a UNSPECIFIED UNSPECIFIED st = (h_range h [a], st)) \<and>
   (\<not> is_tensor a \<and> \<not> is_tensor b \<and> b \<noteq> UNSPECIFIED \<longrightarrow>
      range_overload h a b UNSPECIFIED st = (h_range h [a, b], st)) \<and>
   (\<not> is_tensor a \<and> \<not> is_tensor b \<and> \<not> is_tensor c \<and> b \<noteq> UNSPECIFIED \<and> c \<noteq> UNSPECIFIED \<longrightarrow>
      range_overload h a b c st = (h_range h [a, b, c], st)) \<and>
   (\<not> is_dataset s \<longrightarrow> enumerate_overload h s start st = (h_enumerate h s start, st)) \<and>
   (h_len h = builtin_len \<longrightarrow> len_overload h (PStr ''abc'') st = (Inr (PInt 3), st)) \<and>
   range_overload h (PInt 5) UNSPECIFIED UNSPECIFIED st = (h_range h [PInt 5], st)"
  by (auto simp: abs_overload_def py_abs_def float_overload_def py_float_def
      int_overload_def py_int_def len_overload_def py_len_def print_overload_def
      py_print_def range_overload_def py_range_def enumerate_overload_def py_enumerate_def
      recognized_keywords_def Let_def filter_empty_conv split_def map_sum_def
      split: sum.splits prod.splits)

theorem native_path_is_builtin_witness:
  "\<not> is_tensor (PInt (- 3)) \<and> PInt 2 \<noteq> UNSPECIFIED \<and>
   \<not> is_tensor_array (PStr ''abc'') \<and> \<not> is_tensor_list (PStr ''abc'') \<and>
   \<not> is_tensor (PStr ''abc'') \<and> \<not> is_dataset (PStr ''abc'') \<and>
   \<not> list_ex is_tensor [PInt 1, PInt 2] \<and>
   set (map fst [(''sep'', PStr ''-'')]) \<subseteq> set recognized_keywords \<and>
   \<not> is_tensor (PInt 1) \<and> \<not> is_tensor (PInt 8) \<and> \<not> is_tensor (PInt 3) \<and>
   PInt 8 \<noteq> UNSPECIFIED \<and> PInt 3 \<noteq> UNSPECIFIED \<and>
   h_len run_host = builtin_len \<and>
   abs_overload run_host (PInt (- 3)) empty_state = (Inr (PInt 3), empty_state) \<and>
   int_overload run_host (PInt (- 3)) (PInt 2) empty_state =
     (h_int run_host [PInt (- 3), PInt 2], empty_state) \<and>
   len_overload run_host (PStr ''abc'') empty_state = (Inr (PInt 3), empty_state) \<and>
   print_overload run_host [PInt 1, PInt 2] [(''sep'', PStr ''-'')] empty_state =
     (Inr PNone, \<lparr>graph = [], world = [([PInt 1, PInt 2], [(''sep'', PStr ''-'')])]\<rparr>) \<and>
   range_overload run_host (PInt 1) UNSPECIFIED UNSPECIFIED empty_state =
     (Inr (PRange 0 1 1), empty_state) \<and>
   range_overload run_host (PInt 1) (PInt 8) UNSPECIFIED empty_state =
     (Inr (PRange 1 8 1), empty_state) \<and>
   range_overload run_host (PInt 1) (PInt 8) (PInt 3) empty_state =
     (Inr (PRange 1 8 3), empty_state) \<and>
   range_overload run_host (PInt 5) UNSPECIFIED UNSPECIFIED empty_state =
     (Inr (PRange 0 5 1), empty_state) \<and>
   enumerate_overload run_host (PStr ''abc'') (PInt 0) empty_state =
     (h_enumerate run_host (PStr ''abc'') (PInt 0), empty_state)"
  using native_path_is_builtin [where h = run_host and x = "PInt (- 3)" and base = "PInt 2"
      and s = "PStr ''abc''" and objects = "[PInt 1, PInt 2]"
      and kwargs = "[(''sep'', PStr ''-'')]" and a = "PInt 1" and b = "PInt 8"
      and c = "PInt 3" and start = "PInt 0" and st = empty_state]
  by (simp add: run_host_def empty_state_def recognized_keywords_def)

section \<open>Properties of int\<close>

text \<open>
  C6. On a tensor, the int overload fails with NotImplementedError, and leaves the
  graph as it was, when a base is supplied that is not equal to 10. When the base is
  omitted or equal to 10 it stages the conversion from text to a number if the dtype
  of the tensor is the string one, and a cast otherwise, both to 32-bit integers.
\<close>

theorem tf_int_base:
  assumes "is_tensor x"
  shows "(base \<noteq> UNSPECIFIED \<and> \<not> py_eq_int base 10 \<longrightarrow>
            int_overload h x base st =
              (Inl (NotImplementedError
                      (''base '' @ h_str h base @ '' not supported for int'')), st)) \<and>
         (base = UNSPECIFIED \<or> py_eq_int base 10 \<longrightarrow>
            int_overload h x base st =
              (if dtype_of x = Inr DT_string
               then (Inr (fst (stage h (StringToNumber x DT_int32) st)),
                     snd (stage h (StringToNumber x DT_int32) st))
               else (Inr (fst (stage h (Cast x DT_int32) st)),
                     snd (stage h (Cast x DT_int32) st))))"
  using assms
  by (cases x) (auto simp: int_overload_def tf_int_def split_def Let_def)

theorem tf_int_base_witness:
  "is_tensor example_text \<and> is_tensor example_limit \<and>
   PInt 16 \<noteq> UNSPECIFIED \<and> \<not> py_eq_int (PInt 16) 10 \<and>
   (PInt 10 = UNSPECIFIED \<or> py_eq_int (PInt 10) 10) \<and>
   (UNSPECIFIED = UNSPECIFIED \<or> py_eq_int UNSPECIFIED 10) \<and>
   int_overload run_host example_text (PInt 16) empty_state =
     (Inl (NotImplementedError ''base <object> not supported for int''), empty_state) \<and>
   int_overload run_host example_text (PInt 10) empty_state =
     (Inr (PTensor DT_int32 None (StringToNumber example_text DT_int32)),
      \<lparr>graph = [StringToNumber example_text DT_int32], world = []\<rparr>) \<and>
   int_overload run_host example_limit UNSPECIFIED empty_state =
     (Inr (PTensor DT_int32 None (Cast example_limit DT_int32)),
      \<lparr>graph = [Cast example_limit DT_int32], world = []\<rparr>)"
  using tf_int_base [where x = example_text and base = "PInt 16" and h = run_host
      and st = empty_state]
    tf_int_base [where x = example_text and base = "PInt 10" and h = run_host
      and st = empty_state]
    tf_int_base [where x = example_limit and base = UNSPECIFIED and h = run_host
      and st = empty_state]
  by (simp add: example_text_def example_limit_def run_host_def empty_state_def stage_def)

section \<open>Properties of range\<close>

text \<open>
  C5. When one of its arguments is a tensor, the range overload stages the range
  operation on arguments that depend on how many were supplied: on all three as they
  are; on the start and the maximum of the start and the stop when two are supplied;
  on the maximum of the stop and 0 when one is supplied. The staged maximum yields
  the larger of its two operands when the graph runs.
\<close>

theorem tf_range_arguments:
  assumes "is_tensor start \<or> is_tensor stop \<or> is_tensor step"
  shows "(stop \<noteq> UNSPECIFIED \<and> step \<noteq> UNSPECIFIED \<longrightarrow>
            range_overload h start stop step st = math_ops_range h [start, stop, step] st) \<and>
         (stop \<noteq> UNSPECIFIED \<and> step = UNSPECIFIED \<longrightarrow>
            range_overload h start stop step st =
              math_ops_range h [start, fst (math_ops_maximum h start stop st)]
                (snd (math_ops_maximum h start stop st))) \<and>
         (stop = UNSPECIFIED \<and> step = UNSPECIFIED \<longrightarrow>
            range_overload h start stop step st =
              math_ops_range h [fst (math_ops_maximum h start (PInt 0) st)]
                (snd (math_ops_maximum h start (PInt 0) st))) \<and>
         (\<forall>fd x y p q. exec_val fd p = Inr (RInt x) \<and> exec_val fd q = Inr (RInt y) \<longrightarrow>
            exec_val fd (fst (math_ops_maximum h p q st)) = Inr (RInt (max x y)))"
  using assms
  by (auto simp: range_overload_def tf_range_def math_ops_maximum_def stage_def split_def)

theorem tf_range_arguments_witness:
  "(is_tensor (PInt 5) \<or> is_tensor example_limit \<or> is_tensor UNSPECIFIED) \<and>
   (is_tensor (PInt 5) \<or> is_tensor example_limit \<or> is_tensor (PInt 1)) \<and>
   (is_tensor example_limit \<or> is_tensor UNSPECIFIED \<or> is_tensor UNSPECIFIED) \<and>
   example_limit \<noteq> UNSPECIFIED \<and> PInt 1 \<noteq> UNSPECIFIED \<and>
   range_overload run_host (PInt 5) example_limit (PInt 1) empty_state =
     (Inr (PTensor DT_int32 None (Range [PInt 5, example_limit, PInt 1])),
      \<lparr>graph = [Range [PInt 5, example_limit, PInt 1]], world = []\<rparr>) \<and>
   range_overload run_host (PInt 5) example_limit UNSPECIFIED empty_state =
     (Inr (PTensor DT_int32 None
             (Range [PInt 5, PTensor DT_int32 None (Maximum (PInt 5) example_limit)])),
      \<lparr>graph = [Maximum (PInt 5) example_limit,
                Range [PInt 5, PTensor DT_int32 None (Maximum (PInt 5) example_limit)]],
       world = []\<rparr>) \<and>
   range_overload run_host example_limit UNSPECIFIED UNSPECIFIED empty_state =
     (Inr (PTensor DT_int32 None
             (Range [PTensor DT_int32 None (Maximum example_limit (PInt 0))])),
      \<lparr>graph = [Maximum example_limit (PInt 0),
                Range [PTensor DT_int32 None (Maximum example_limit (PInt 0))]],
       world = []\<rparr>) \<and>
   exec_val (\<lambda>i. Some (RInt 2)) (PInt 5) = Inr (RInt 5) \<and>
   exec_val (\<lambda>i. Some (RInt 2)) example_limit = Inr (RInt 2) \<and>
   exec_val (\<lambda>i. Some (RInt 2))
     (fst (math_ops_maximum run_host (PInt 5) example_limit empty_state)) = Inr (RInt 5) \<and>
   exec_val (\<lambda>i. Some (RInt 2))
     (PTensor DT_int32 None
        (Range [PInt 5, PTensor DT_int32 None (Maximum (PInt 5) example_limit)])) =
     Inr (RVec [])"
  using tf_range_arguments [where start = "PInt 5" and stop = example_limit
      and step = "PInt 1" and h = run_host and st = empty_state]
    tf_range_arguments [where start = "PInt 5" and stop = example_limit
      and step = UNSPECIFIED and h = run_host and st = empty_state]
    tf_range_arguments [where start = example_limit and stop = UNSPECIFIED
      and step = UNSPECIFIED and h = run_host and st = empty_state]
  by (simp add: example_limit_def run_host_def empty_state_def stage_def
      math_ops_range_def math_ops_maximum_def range_values_def)

text \<open>
  C10. When a step is supplied and the stop is omitted, the sentinel itself is passed
  on as the stop: to the staged range operation when the start or the step is a
  tensor, and to the builtin range of the host otherwise.
\<close>

theorem range_step_without_stop:
  assumes "step \<noteq> UNSPECIFIED"
  shows "range_overload h start UNSPECIFIED step st =
           (if is_tensor start \<or> is_tensor step
            then (Inr (fst (stage h (Range [start, UNSPECIFIED, step]) st)),
                  snd (stage h (Range [start, UNSPECIFIED, step]) st))
            else (h_range h [start, UNSPECIFIED, step], st))"
  using assms
  by (simp add: range_overload_def tf_range_def py_range_def math_ops_range_def split_def
      Let_def)

theorem range_step_without_stop_witness:
  "PInt 2 \<noteq> UNSPECIFIED \<and>
   range_overload run_host (PInt 5) UNSPECIFIED (PInt 2) empty_state =
     (builtin_range [PInt 5, UNSPECIFIED, PInt 2], empty_state) \<and>
   builtin_range [PInt 5, UNSPECIFIED, PInt 2] =
     Inl (TypeError ''object cannot be interpreted as an integer'') \<and>
   range_overload run_host example_limit UNSPECIFIED (PInt 2) empty_state =
     (Inr (PTensor DT_int32 None (Range [example_limit, UNSPECIFIED, PInt 2])),
      \<lparr>graph = [Range [example_limit, UNSPECIFIED, PInt 2]], world = []\<rparr>)"
  using range_step_without_stop [where step = "PInt 2" and start = "PInt 5"
      and h = run_host and st = empty_state]
    range_step_without_stop [where step = "PInt 2" and start = example_limit
      and h = run_host and st = empty_state]
  by (simp add: example_limit_def run_host_def empty_state_def stage_def)

section \<open>Properties of print\<close>

lemma sublist_append_left: "sublist x ys \<Longrightarrow> sublist x (zs @ ys)"
  unfolding sublist_def by (metis append.assoc)

lemma sublist_append_right: "sublist x ys \<Longrightarrow> sublist x (ys @ zs)"
  unfolding sublist_def by (metis append.assoc)

lemma sublist_join_comma: "x \<in> set xs \<Longrightarrow> sublist x (join_comma xs)"
proof (induction xs rule: join_comma.induct)
  case 1
  then show ?case by simp
next
  case (2 s)
  then show ?case by simp
next
  case (3 s v va)
  show ?case
  proof (cases "x = s")
    case True
    then show ?thesis by simp
  next
    case False
    with "3.prems" have "x \<in> set (v # va)" by simp
    then have "sublist x (join_comma (v # va))" by (rule "3.IH")
    then have "sublist x (s @ '', '' @ join_comma (v # va))"
      by (intro sublist_append_left)
    then show ?thesis by simp
  qed
qed

lemma sublist_str_tuple: "k \<in> set ks \<Longrightarrow> sublist (repr_str k) (str_tuple ks)"
proof -
  assume k: "k \<in> set ks"
  then have "repr_str k \<in> set (map repr_str ks)" by simp
  then have j: "sublist (repr_str k) (join_comma (map repr_str ks))"
    by (rule sublist_join_comma)
  then have "sublist (repr_str k) (''('' @ join_comma (map repr_str ks) @ '')'')"
    by (intro sublist_append_left sublist_append_right)
  moreover have "sublist (repr_str k) (''('' @ repr_str k @ '',)'')"
    by (intro sublist_append_left sublist_append_right) simp
  ultimately show ?thesis
    using k by (auto simp: str_tuple_def split: list.splits)
qed

lemma sublist_repr_str: "sublist k (repr_str k)"
  by (simp add: repr_str_def sublist_Cons_right)

text \<open>
  C7. When a keyword argument of print has a key outside the recognised ones, the
  overload fails with a ValueError, whatever its positional arguments are, symbolic or
  not, and leaves the graph and the world as they were: nothing is staged and nothing
  is printed. The message lists the unrecognised keys, so each of them occurs in it.
\<close>

theorem print_unknown_keyword:
  assumes "k \<in> set (map fst kwargs)" and "k \<notin> set recognized_keywords"
  shows "print_overload h objects kwargs st =
           (Inl (ValueError
                   (''invalid keyword arguments: ''
                    @ str_tuple (filter (\<lambda>k. k \<notin> set recognized_keywords)
                                        (remdups (map fst kwargs))))), st) \<and>
         sublist k (''invalid keyword arguments: ''
                    @ str_tuple (filter (\<lambda>k. k \<notin> set recognized_keywords)
                                        (remdups (map fst kwargs))))"
proof -
  let ?u = "filter (\<lambda>k. k \<notin> set recognized_keywords) (remdups (map fst kwargs))"
  from assms have m: "k \<in> set ?u" by simp
  then have "0 < length ?u" by (rule length_pos_if_in_set)
  then have ne: "?u \<noteq> []" by simp
  have "sublist (repr_str k) (str_tuple ?u)" using m by (rule sublist_str_tuple)
  then have "sublist k (str_tuple ?u)"
    using sublist_repr_str sublist_order.order_trans by blast
  then have s: "sublist k (''invalid keyword arguments: '' @ str_tuple ?u)"
    by (rule sublist_append_left)
  from ne have p: "print_overload h objects kwargs st =
      (Inl (ValueError (''invalid keyword arguments: '' @ str_tuple ?u)), st)"
    by (simp add: print_overload_def Let_def)
  from p s show ?thesis by (rule conjI)
qed

theorem print_unknown_keyword_witness:
  "''bogus'' \<in> set (map fst [(''bogus'', PBool True)]) \<and>
   ''bogus'' \<notin> set recognized_keywords \<and>
   print_overload run_host [PInt 1] [(''bogus'', PBool True)] empty_state =
     (Inl (ValueError (''invalid keyword arguments: ('' @ repr_str ''bogus'' @ '',)'')),
      empty_state) \<and>
   print_overload run_host [example_limit] [(''bogus'', PBool True)] empty_state =
     (Inl (ValueError (''invalid keyword arguments: ('' @ repr_str ''bogus'' @ '',)'')),
      empty_state) \<and>
   sublist ''bogus'' (''invalid keyword arguments: ('' @ repr_str ''bogus'' @ '',)'')"
  using print_unknown_keyword [where k = "''bogus''" and kwargs = "[(''bogus'', PBool True)]"
      and h = run_host and objects = "[PInt 1]" and st = empty_state]
    print_unknown_keyword [where k = "''bogus''" and kwargs = "[(''bogus'', PBool True)]"
      and h = run_host and objects = "[example_limit]" and st = empty_state]
  by (simp add: recognized_keywords_def str_tuple_def)

lemma map_of_filter_values:
  "distinct (map fst kw) \<Longrightarrow>
   map_of (filter (\<lambda>(k, v). P v) kw) k =
     (case map_of kw k of None \<Rightarrow> None | Some v \<Rightarrow> if P v then Some v else None)"
proof (induction kw)
  case Nil
  then show ?case by simp
next
  case (Cons a kw)
  then show ?case
    by (cases a) (auto split: option.splits simp: map_of_eq_None_iff image_iff
        dest: map_of_SomeD)
qed

text \<open>
  C8. When a positional argument of print is a tensor and the keywords are recognised,
  the overload stages the foreign callback on the print wrapper, with the keyword
  arguments the wrapper will pass to the print of the host. None of them is the
  sentinel; \<open>flush\<close> is the value the caller gave, and True when the caller gave none
  or gave the sentinel; every other key has the value the caller gave unless that was
  the sentinel, in which case the key is absent. When the wrapper runs, either the
  decoding of a byte string fails or the print of the host is called with exactly
  these keyword arguments.
\<close>

theorem staged_print_keywords:
  assumes "list_ex is_tensor objects"
    and "set (map fst kwargs) \<subseteq> set recognized_keywords"
    and "distinct (map fst kwargs)"
  shows "\<exists>ov t st' d sh.
           print_overload h objects kwargs st = (Inr t, st') \<and>
           t = PTensor d sh (WrapPyFunc (PrintWrapper ov) PNone objects True) \<and>
           UNSPECIFIED \<notin> snd ` set ov \<and>
           map_of ov ''flush'' =
             (case map_of kwargs ''flush'' of
                None \<Rightarrow> Some (PBool True)
              | Some v \<Rightarrow> if v = UNSPECIFIED then Some (PBool True) else Some v) \<and>
           (\<forall>k. k \<noteq> ''flush'' \<longrightarrow>
              map_of ov k =
                (case map_of kwargs k of
                   None \<Rightarrow> None
                 | Some v \<Rightarrow> if v = UNSPECIFIED then None else Some v)) \<and>
           (\<forall>vals st2.
              (\<exists>e. run_closure h (PrintWrapper ov) vals st2 = (Inl e, st2)) \<or>
              (\<exists>vs. run_closure h (PrintWrapper ov) vals st2 = py_print h vs ov st2))"
proof -
  let ?f = "filter (\<lambda>(k, v). v \<noteq> UNSPECIFIED) kwargs"
  let ?ov = "if ''flush'' \<notin> set (map fst ?f) then ?f @ [(''flush'', PBool True)] else ?f"
  have u: "filter (\<lambda>k. k \<notin> set recognized_keywords) (remdups (map fst kwargs)) = []"
    using assms(2) by (auto simp: filter_empty_conv)
  have p: "print_overload h objects kwargs st =
             (Inr (fst (stage h (WrapPyFunc (PrintWrapper ?ov) PNone objects True) st)),
              snd (stage h (WrapPyFunc (PrintWrapper ?ov) PNone objects True) st))"
    using assms(1) u
    by (simp add: print_overload_def tf_py_func_print_def wrap_py_func_def Let_def split_def)
  have n: "UNSPECIFIED \<notin> snd ` set ?ov" by auto
  have mf: "\<And>k. map_of ?f k =
      (case map_of kwargs k of None \<Rightarrow> None | Some v \<Rightarrow> if v \<noteq> UNSPECIFIED then Some v else None)"
    using assms(3) by (rule map_of_filter_values)
  have fl: "map_of ?ov ''flush'' =
             (case map_of kwargs ''flush'' of
                None \<Rightarrow> Some (PBool True)
              | Some v \<Rightarrow> if v = UNSPECIFIED then Some (PBool True) else Some v)"
  proof (cases "''flush'' \<in> set (map fst ?f)")
    case True
    then have "map_of ?f ''flush'' \<noteq> None" by (simp add: map_of_eq_None_iff)
    with True show ?thesis using mf[of "''flush''"] by (auto split: option.splits if_splits)
  next
    case False
    then have "map_of ?f ''flush'' = None" by (simp add: map_of_eq_None_iff)
    with False show ?thesis using mf[of "''flush''"]
      by (auto simp: map_add_def split: option.splits if_splits)
  qed
  have ot: "\<forall>k. k \<noteq> ''flush'' \<longrightarrow>
              map_of ?ov k =
                (case map_of kwargs k of
                   None \<Rightarrow> None
                 | Some v \<Rightarrow> if v = UNSPECIFIED then None else Some v)"
    using mf by (auto simp: map_add_def split: option.splits)
  have rc: "\<forall>vals st2.
              (\<exists>e. run_closure h (PrintWrapper ?ov) vals st2 = (Inl e, st2)) \<or>
              (\<exists>vs. run_closure h (PrintWrapper ?ov) vals st2 = py_print h vs ?ov st2)"
    by (auto simp: print_wrapper_def Let_def split: sum.splits)
  show ?thesis
    apply (rule exI[of _ ?ov])
    using p n fl ot rc by (simp add: stage_def)
qed

theorem staged_print_keywords_witness:
  "list_ex is_tensor [example_limit] \<and>
   set (map fst [(''sep'', PStr ''-''), (''end'', UNSPECIFIED)]) \<subseteq> set recognized_keywords \<and>
   distinct (map fst [(''sep'', PStr ''-''), (''end'', UNSPECIFIED)]) \<and>
   set (map fst [(''flush'', PBool False)]) \<subseteq> set recognized_keywords \<and>
   distinct (map fst [(''flush'', PBool False)]) \<and>
   print_overload run_host [example_limit] [(''sep'', PStr ''-''), (''end'', UNSPECIFIED)]
     empty_state =
     (Inr (PTensor DT_int32 None
             (WrapPyFunc (PrintWrapper [(''sep'', PStr ''-''), (''flush'', PBool True)])
                PNone [example_limit] True)),
      \<lparr>graph = [WrapPyFunc (PrintWrapper [(''sep'', PStr ''-''), (''flush'', PBool True)])
                  PNone [example_limit] True],
       world = []\<rparr>) \<and>
   print_overload run_host [example_limit] [(''flush'', PBool False)] empty_state =
     (Inr (PTensor DT_int32 None
             (WrapPyFunc (PrintWrapper [(''flush'', PBool False)]) PNone [example_limit]
                True)),
      \<lparr>graph = [WrapPyFunc (PrintWrapper [(''flush'', PBool False)]) PNone
                  [example_limit] True],
       world = []\<rparr>) \<and>
   run_closure run_host (PrintWrapper [(''sep'', PStr ''-''), (''flush'', PBool True)])
     [PInt 7] empty_state =
     (Inr (), \<lparr>graph = [],
                world = [([PInt 7], [(''sep'', PStr ''-''), (''flush'', PBool True)])]\<rparr>)"
proof -
  have run: ?thesis
    by (simp add: example_limit_def run_host_def empty_state_def recognized_keywords_def
        print_overload_def tf_py_func_print_def wrap_py_func_def stage_def
        print_wrapper_def py_print_def Let_def)
  show ?thesis
    using staged_print_keywords [where objects = "[example_limit]"
        and kwargs = "[(''sep'', PStr ''-''), (''end'', UNSPECIFIED)]" and h = run_host
        and st = empty_state]
      staged_print_keywords [where objects = "[example_limit]"
        and kwargs = "[(''flush'', PBool False)]" and h = run_host and st = empty_state]
      run
    by blast
qed

section \<open>Properties of the evaluation in the caller's context\<close>

lemma walk_back_None:
  "walk_back n None = (if n = 0 then Inr None
     else Inl (AttributeError ''NoneType object has no attribute f_back''))"
  by (cases n) (simp_all add: get_f_back_def)

lemma walk_back_short:
  "frames_above fr < n \<Longrightarrow> walk_back (Suc n) (Some fr) =
     Inl (AttributeError ''NoneType object has no attribute f_back'')"
proof (induction n arbitrary: fr)
  case 0
  then show ?case by simp
next
  case (Suc n)
  show ?case
  proof (cases fr)
    case (Frame g l b)
    show ?thesis
    proof (cases b)
      case None
      with Frame show ?thesis by (simp add: get_f_back_def)
    next
      case (Some fr')
      with Frame Suc.prems have "frames_above fr' < n" by simp
      then have "walk_back (Suc n) (Some fr') =
          Inl (AttributeError ''NoneType object has no attribute f_back'')"
        by (rule Suc.IH)
      with Frame Some show ?thesis by (simp add: get_f_back_def)
    qed
  qed
qed

lemma walk_back_exact:
  "frames_above fr = n \<Longrightarrow> walk_back (Suc n) (Some fr) = Inr None"
proof (induction n arbitrary: fr)
  case 0
  then show ?case
    by (cases fr; cases "f_back fr") (auto simp: get_f_back_def)
next
  case (Suc n)
  show ?case
  proof (cases fr)
    case (Frame g l b)
    show ?thesis
    proof (cases b)
      case None
      with Frame Suc.prems show ?thesis by simp
    next
      case (Some fr')
      with Frame Suc.prems have "frames_above fr' = n" by simp
      then have "walk_back (Suc n) (Some fr') = Inr None" by (rule Suc.IH)
      with Frame Some show ?thesis by (simp add: get_f_back_def)
    qed
  qed
qed

text \<open>
  C9, as the code has it. With a delta that is not negative, the evaluation fails with
  an AttributeError, raised by the walk on a frame that is missing, when fewer than
  delta frames are above the frame of the call. When exactly delta frames are above
  it, the walk ends on the missing frame without reading it: the evaluation fails with
  an AttributeError if one or two arguments are supplied, since the globals or the
  locals of the missing frame are read, and with three arguments or more nothing is
  read from it and the evaluation primitive is called on the arguments supplied.
\<close>

theorem eval_in_original_context_shallow_stack:
  assumes "0 \<le> caller_level_delta"
  shows "(int (frames_above cur) < caller_level_delta \<longrightarrow>
            eval_in_original_context f args caller_level_delta cur =
              Inl (AttributeError ''NoneType object has no attribute f_back'')) \<and>
         (int (frames_above cur) = caller_level_delta \<and> length args = 1 \<longrightarrow>
            eval_in_original_context f args caller_level_delta cur =
              Inl (AttributeError ''NoneType object has no attribute f_globals'')) \<and>
         (int (frames_above cur) = caller_level_delta \<and> length args = 2 \<longrightarrow>
            eval_in_original_context f args caller_level_delta cur =
              Inl (AttributeError ''NoneType object has no attribute f_locals'')) \<and>
         (int (frames_above cur) = caller_level_delta \<and> 3 \<le> length args \<longrightarrow>
            eval_in_original_context f args caller_level_delta cur =
              f [args ! 0, args ! 1, args ! 2])"
proof -
  from assms have n: "nat (caller_level_delta + 1) = Suc (nat caller_level_delta)" by simp
  have a: "int (frames_above cur) < caller_level_delta \<Longrightarrow>
      walk_back (Suc (nat caller_level_delta)) (Some cur) =
        Inl (AttributeError ''NoneType object has no attribute f_back'')"
    by (rule walk_back_short) simp
  have b: "int (frames_above cur) = caller_level_delta \<Longrightarrow>
      walk_back (Suc (nat caller_level_delta)) (Some cur) = Inr None"
    by (rule walk_back_exact) auto
  show ?thesis
    using a b
    by (auto simp: eval_in_original_context_def n get_f_globals_def get_f_locals_def
        split: list.splits)
qed

theorem eval_in_original_context_shallow_stack_witness:
  "(0::int) \<le> 2 \<and> (0::int) \<le> 1 \<and> int (frames_above example_caller_frame) < 2 \<and>
   int (frames_above example_caller_frame) = 1 \<and>
   length [PStr ''x''] = 1 \<and> length [PStr ''x'', PDict []] = 2 \<and>
   3 \<le> length [PStr ''x'', PDict [], PDict []] \<and>
   eval_in_original_context Inr [PStr ''x''] 2 example_caller_frame =
     (Inl (AttributeError ''NoneType object has no attribute f_back'') :: exn + pyval list) \<and>
   eval_in_original_context Inr [PStr ''x''] 1 example_caller_frame =
     (Inl (AttributeError ''NoneType object has no attribute f_globals'')
        :: exn + pyval list) \<and>
   eval_in_original_context Inr [PStr ''x'', PDict []] 1 example_caller_frame =
     (Inl (AttributeError ''NoneType object has no attribute f_locals'')
        :: exn + pyval list) \<and>
   eval_in_original_context Inr [PStr ''x'', PDict [], PDict []] 1 example_caller_frame =
     (Inr [PStr ''x'', PDict [], PDict []] :: exn + pyval list)"
  using eval_in_original_context_shallow_stack [where caller_level_delta = 2
      and cur = example_caller_frame and f = "Inr :: pyval list \<Rightarrow> exn + pyval list"
      and args = "[PStr ''x'']"]
    eval_in_original_context_shallow_stack [where caller_level_delta = 1
      and cur = example_caller_frame and f = "Inr :: pyval list \<Rightarrow> exn + pyval list"
      and args = "[PStr ''x'']"]
    eval_in_original_context_shallow_stack [where caller_level_delta = 1
      and cur = example_caller_frame and f = "Inr :: pyval list \<Rightarrow> exn + pyval list"
      and args = "[PStr ''x'', PDict []]"]
    eval_in_original_context_shallow_stack [where caller_level_delta = 1
      and cur = example_caller_frame and f = "Inr :: pyval list \<Rightarrow> exn + pyval list"
      and args = "[PStr ''x'', PDict [], PDict []]"]
  by (simp add: example_caller_frame_def example_module_frame_def)

text \<open>
  C9, as the spec states it, fails for a call made from the top level of a module with
  delta 1 and three arguments. One frame is above the frame of the call, fewer than
  the two the walk asks for, and the evaluation does not fail: the primitive is called
  on the three arguments.
\<close>

theorem eval_in_original_context_counterexample:
  "frames_above example_caller_frame = 1 \<and>
   int (frames_above example_caller_frame) < 1 + 1 \<and>
   eval_in_original_context Inr [PStr ''x'', PDict [], PDict []] 1 example_caller_frame =
     (Inr [PStr ''x'', PDict [], PDict []] :: exn + pyval list)"
  by (simp add: example_caller_frame_def example_module_frame_def
      eval_in_original_context_def get_f_back_def eval_nat_numeral)

end
